theory Spec2Isabelle
  imports Main
begin

section \<open>Values, records and the stored state\<close>

text \<open>
  The program is a single Python module: two table classes (\<open>Post\<close>, \<open>Comment\<close>), two
  request bodies (\<open>CreatePostModel\<close>, \<open>CreateCommentModel\<close>), one handler per route and
  the process entry point.

  Python attributes are dynamically typed. A table object is built without validation
  and \<open>setattr\<close> stores whatever it is given, so the fields of \<open>Post\<close> and \<open>Comment\<close>
  hold Python values. The request bodies are validated by the framework before the
  handler runs, so their fields carry the declared types. Floating point numbers are
  left out of the values.
\<close>

datatype pyval =
    PyNone
  | PyBool bool
  | PyInt int
  | PyStr string
  | PyList "pyval list"
  | PyDict "(string \<times> pyval) list"

text \<open>\<^verbatim>\<open>class Post(SQLModel, table=True)\<close>: id, title, content.\<close>

record Post =
  id :: pyval
  title :: pyval
  content :: pyval

text \<open>\<^verbatim>\<open>class Comment(SQLModel, table=True)\<close>: id, post_id, content.\<close>

record Comment =
  id :: pyval
  post_id :: pyval
  content :: pyval

text \<open>\<^verbatim>\<open>class CreatePostModel(BaseModel)\<close>: title: str, content: str.\<close>

record CreatePostModel =
  title :: string
  content :: string

text \<open>\<^verbatim>\<open>class CreateCommentModel(BaseModel)\<close>: post_id: int, content: str.\<close>

record CreateCommentModel =
  post_id :: int
  content :: string

text \<open>
  The database file holds the two tables. A table is the list of its rows in the order
  they were inserted.
\<close>

record database =
  posts :: "Post list"
  comments :: "Comment list"

text \<open>
  \<open>HTTPException status_code detail\<close> is the only exception the handlers raise
  themselves. The others are raised below the handlers and caught by none of them, so
  the request fails with status 500: \<open>ValueError\<close> by the assignment of an attribute
  the record does not have, \<open>OverflowError\<close> by the database driver for an integer
  beyond 64 bits, \<open>InterfaceError\<close> by the driver for a list or a dict, which it
  cannot pass on, and \<open>IntegrityError\<close> by the storage engine for a write that
  breaks a constraint of the table.
\<close>

datatype error =
    HTTPException nat string
  | ValueError
  | OverflowError
  | InterfaceError
  | IntegrityError

text \<open>
  A handler runs against the stored state and leaves a state behind whether it returns
  or raises, so its result is the pair of the outcome and the state after the request.
\<close>

type_synonym 'a result = "(error + 'a) \<times> database"

type_synonym json_object = "(string \<times> pyval) list"

section \<open>The storage layer\<close>

text \<open>
  Modelled from the spec: the session, the engine and the database file behind them
  belong to the ORM, the database driver and the storage engine, which are not in the
  repository. The functions of this section are what the handlers use of them, with
  the spec's data model: two tables, each row found by its unique primary key \<open>id\<close>,
  the columns \<open>id\<close> and \<open>post_id\<close> integer and the columns \<open>title\<close> and \<open>content\<close>
  text, none of them nullable. Here \<open>pk\<close> is the primary key column of the table
  (\<open>Post.id\<close> or \<open>Comment.id\<close>).
\<close>

subsection \<open>Values on their way into a column\<close>

text \<open>The integers the storage engine holds are the signed 64-bit ones.\<close>

definition int64 :: "int \<Rightarrow> bool" where
  "int64 n = (- 9223372036854775808 \<le> n \<and> n \<le> 9223372036854775807)"

definition overflows :: "pyval \<Rightarrow> bool" where
  "overflows v = (case v of PyInt n \<Rightarrow> \<not> int64 n | _ \<Rightarrow> False)"

text \<open>An integer as decimal text, and decimal text as an integer.\<close>

definition digit_char :: "nat \<Rightarrow> char" where
  "digit_char d = ''0123456789'' ! d"

fun str_of_nat :: "nat \<Rightarrow> string" where
  "str_of_nat n =
     (if n < 10 then [digit_char n] else str_of_nat (n div 10) @ [digit_char (n mod 10)])"

definition str_of_int :: "int \<Rightarrow> string" where
  "str_of_int i = (if i < 0 then CHR ''-'' # str_of_nat (nat (- i)) else str_of_nat (nat i))"

definition digit_of :: "char \<Rightarrow> nat option" where
  "digit_of c = map_of (zip ''0123456789'' [0 ..< 10]) c"

fun nat_of_digits :: "nat \<Rightarrow> string \<Rightarrow> nat option" where
  "nat_of_digits n [] = Some n"
| "nat_of_digits n (c # cs) =
     (case digit_of c of None \<Rightarrow> None | Some d \<Rightarrow> nat_of_digits (10 * n + d) cs)"

definition int_of_text :: "string \<Rightarrow> int option" where
  "int_of_text s =
     (case s of
        [] \<Rightarrow> None
      | c # cs \<Rightarrow>
          if c = CHR ''-'' \<and> cs \<noteq> [] then map_option (\<lambda>n. - int n) (nat_of_digits 0 cs)
          else if c = CHR ''+'' \<and> cs \<noteq> [] then map_option int (nat_of_digits 0 cs)
          else map_option int (nat_of_digits 0 s))"

text \<open>
  What a text column keeps of a value written to it. Text is kept as it is, a number is
  kept as its decimal text and a truth value as \<open>1\<close> or \<open>0\<close>; None is refused, the
  column is not nullable. The driver refuses an integer beyond 64 bits, and a list or
  a dict, before the storage engine sees them.
\<close>

definition as_text :: "pyval \<Rightarrow> error + pyval" where
  "as_text v =
     (case v of
        PyNone \<Rightarrow> Inl IntegrityError
      | PyBool b \<Rightarrow> Inr (PyStr (if b then ''1'' else ''0''))
      | PyInt n \<Rightarrow> if int64 n then Inr (PyStr (str_of_int n)) else Inl OverflowError
      | PyStr s \<Rightarrow> Inr (PyStr s)
      | PyList _ \<Rightarrow> Inl InterfaceError
      | PyDict _ \<Rightarrow> Inl InterfaceError)"

text \<open>
  What an integer column keeps: an integer as it is, a truth value as 1 or 0, text that
  is a decimal integer of 64 bits as that integer and any other text as text; None is
  refused. Text in another notation for numbers is outside the model, as floating
  point numbers are.
\<close>

definition as_integer :: "pyval \<Rightarrow> error + pyval" where
  "as_integer v =
     (case v of
        PyNone \<Rightarrow> Inl IntegrityError
      | PyBool b \<Rightarrow> Inr (PyInt (if b then 1 else 0))
      | PyInt n \<Rightarrow> if int64 n then Inr (PyInt n) else Inl OverflowError
      | PyStr s \<Rightarrow>
          (case int_of_text s of
             None \<Rightarrow> Inr (PyStr s)
           | Some n \<Rightarrow> if int64 n then Inr (PyInt n) else Inr (PyStr s))
      | PyList _ \<Rightarrow> Inl InterfaceError
      | PyDict _ \<Rightarrow> Inl InterfaceError)"

text \<open>The primary key is an integer column that keeps integers only.\<close>

definition as_primary_key :: "pyval \<Rightarrow> error + pyval" where
  "as_primary_key v =
     (case as_integer v of
        Inl e \<Rightarrow> Inl e
      | Inr (PyInt n) \<Rightarrow> Inr (PyInt n)
      | Inr _ \<Rightarrow> Inl IntegrityError)"

text \<open>
  A write sends the columns that were assigned, and those only; \<open>changed\<close> says
  whether the column is one of them.
\<close>

definition written :: "bool \<Rightarrow> (pyval \<Rightarrow> error + pyval) \<Rightarrow> pyval \<Rightarrow> error + pyval" where
  "written changed column v = (if changed then column v else Inr v)"

definition bind_Post :: "string list \<Rightarrow> Post \<Rightarrow> error + Post" where
  "bind_Post changed post =
     (case written (''id'' \<in> set changed) as_primary_key (Post.id post) of
        Inl e \<Rightarrow> Inl e
      | Inr i \<Rightarrow>
          (case written (''title'' \<in> set changed) as_text (Post.title post) of
             Inl e \<Rightarrow> Inl e
           | Inr t \<Rightarrow>
               (case written (''content'' \<in> set changed) as_text (Post.content post) of
                  Inl e \<Rightarrow> Inl e
                | Inr c \<Rightarrow> Inr \<lparr>Post.id = i, Post.title = t, Post.content = c\<rparr>)))"

definition bind_Comment :: "string list \<Rightarrow> Comment \<Rightarrow> error + Comment" where
  "bind_Comment changed comment =
     (case written (''id'' \<in> set changed) as_primary_key (Comment.id comment) of
        Inl e \<Rightarrow> Inl e
      | Inr i \<Rightarrow>
          (case written (''post_id'' \<in> set changed) as_integer (Comment.post_id comment) of
             Inl e \<Rightarrow> Inl e
           | Inr p \<Rightarrow>
               (case written (''content'' \<in> set changed) as_text (Comment.content comment) of
                  Inl e \<Rightarrow> Inl e
                | Inr c \<Rightarrow>
                    Inr \<lparr>Comment.id = i, Comment.post_id = p, Comment.content = c\<rparr>)))"

subsection \<open>Reading and writing rows\<close>

text \<open>
  \<^verbatim>\<open>session.get(Model, key)\<close>: the row with that primary key, or None. A table holds
  no integer beyond 64 bits, so a key beyond 64 bits finds no row: the driver raises
  OverflowError when it is handed the key.
\<close>

definition session_get :: "('r \<Rightarrow> pyval) \<Rightarrow> 'r list \<Rightarrow> pyval \<Rightarrow> error + 'r option" where
  "session_get pk rows key =
     (case find (\<lambda>r. pk r = key) rows of
        Some r \<Rightarrow> Inr (Some r)
      | None \<Rightarrow> if overflows key then Inl OverflowError else Inr None)"

text \<open>
  Modelled from the spec: the storage engine's assignment of a primary key to a new row
  is not in the repository. The spec says the id is an integer, auto-assigned and
  unique; the model takes one more than the largest integer id in the table (and 1 for
  a table with no positive id).
\<close>

fun max_id :: "('r \<Rightarrow> pyval) \<Rightarrow> 'r list \<Rightarrow> int" where
  "max_id pk [] = 0"
| "max_id pk (r # rs) =
     (case pk r of PyInt n \<Rightarrow> max n (max_id pk rs) | _ \<Rightarrow> max_id pk rs)"

definition new_id :: "('r \<Rightarrow> pyval) \<Rightarrow> 'r list \<Rightarrow> int" where
  "new_id pk rows = max_id pk rows + 1"

text \<open>
  A changed object is written back to the row it was loaded from (the row with primary
  key \<open>key\<close>). The write is refused when it would move the row onto a primary key that
  is already in the table.
\<close>

definition pk_conflict :: "('r \<Rightarrow> pyval) \<Rightarrow> pyval \<Rightarrow> 'r \<Rightarrow> 'r list \<Rightarrow> bool" where
  "pk_conflict pk key obj rows = (pk obj \<noteq> key \<and> pk obj \<in> set (map pk rows))"

definition update_rows :: "('r \<Rightarrow> pyval) \<Rightarrow> pyval \<Rightarrow> 'r \<Rightarrow> 'r list \<Rightarrow> 'r list" where
  "update_rows pk key obj rows = map (\<lambda>r. if pk r = key then obj else r) rows"

definition delete_rows :: "('r \<Rightarrow> pyval) \<Rightarrow> pyval \<Rightarrow> 'r list \<Rightarrow> 'r list" where
  "delete_rows pk key rows = filter (\<lambda>r. pk r \<noteq> key) rows"

text \<open>
  \<^verbatim>\<open>session.add(post); session.commit(); session.refresh(post)\<close> for an object that
  is new: the row is inserted under a new id, and the refreshed object carries that id.
  The title and the content of a new Post are text, which a text column keeps as it
  is. The \<open>post_id\<close> of a new Comment is an integer of any size, and one beyond 64 bits
  is refused by the driver: nothing is inserted.
\<close>

definition insert_Post :: "Post \<Rightarrow> database \<Rightarrow> Post \<times> database" where
  "insert_Post post db =
     (let post = post\<lparr>Post.id := PyInt (new_id Post.id (posts db))\<rparr>
      in (post, db\<lparr>posts := posts db @ [post]\<rparr>))"

definition insert_Comment :: "Comment \<Rightarrow> database \<Rightarrow> Comment result" where
  "insert_Comment comment db =
     (case bind_Comment [''post_id'', ''content''] comment of
        Inl e \<Rightarrow> (Inl e, db)
      | Inr comment \<Rightarrow>
          (let comment = comment\<lparr>Comment.id := PyInt (new_id Comment.id (comments db))\<rparr>
           in (Inr comment, db\<lparr>comments := comments db @ [comment]\<rparr>)))"

text \<open>
  The same three calls for an object that was loaded with \<open>session.get\<close> under \<open>key\<close>
  and then changed in the attributes \<open>changed\<close>: the row is overwritten with what the
  columns keep of the object's values, and the refreshed object is the row as written.
  A refused write raises and stores nothing.
\<close>

definition update_Post :: "pyval \<Rightarrow> string list \<Rightarrow> Post \<Rightarrow> database \<Rightarrow> Post result" where
  "update_Post key changed db_post db =
     (case bind_Post changed db_post of
        Inl e \<Rightarrow> (Inl e, db)
      | Inr row \<Rightarrow>
          if pk_conflict Post.id key row (posts db) then (Inl IntegrityError, db)
          else (Inr row, db\<lparr>posts := update_rows Post.id key row (posts db)\<rparr>))"

definition update_Comment ::
  "pyval \<Rightarrow> string list \<Rightarrow> Comment \<Rightarrow> database \<Rightarrow> Comment result" where
  "update_Comment key changed db_comment db =
     (case bind_Comment changed db_comment of
        Inl e \<Rightarrow> (Inl e, db)
      | Inr row \<Rightarrow>
          if pk_conflict Comment.id key row (comments db) then (Inl IntegrityError, db)
          else (Inr row, db\<lparr>comments := update_rows Comment.id key row (comments db)\<rparr>))"

text \<open>\<^verbatim>\<open>session.delete(obj); session.commit()\<close>: the object's row is removed.\<close>

definition delete_Post :: "Post \<Rightarrow> database \<Rightarrow> database" where
  "delete_Post post db = db\<lparr>posts := delete_rows Post.id (Post.id post) (posts db)\<rparr>"

definition delete_Comment :: "Comment \<Rightarrow> database \<Rightarrow> database" where
  "delete_Comment comment db =
     db\<lparr>comments := delete_rows Comment.id (Comment.id comment) (comments db)\<rparr>"

text \<open>
  \<^verbatim>\<open>session.exec(select(Comment).where(Comment.post_id == post_id)).all()\<close>: the rows
  with that \<open>post_id\<close>; the driver refuses a \<open>post_id\<close> beyond 64 bits.
\<close>

definition select_Comment_where_post_id :: "int \<Rightarrow> database \<Rightarrow> error + Comment list" where
  "select_Comment_where_post_id post_id' db =
     (if int64 post_id' then Inr (filter (\<lambda>c. Comment.post_id c = PyInt post_id') (comments db))
      else Inl OverflowError)"

section \<open>Attribute assignment\<close>

text \<open>
  \<^verbatim>\<open>setattr(obj, key, value)\<close> on a table object: the value is not checked and is
  assigned as it is; the name is checked by the class the table classes are built on,
  which raises ValueError for a name that is no field of the record. (That check is
  part of the ORM and not of the repository.)
\<close>

definition setattr_Post :: "Post \<Rightarrow> string \<Rightarrow> pyval \<Rightarrow> error + Post" where
  "setattr_Post obj key v =
     (if key = ''id'' then Inr (obj\<lparr>Post.id := v\<rparr>)
      else if key = ''title'' then Inr (obj\<lparr>Post.title := v\<rparr>)
      else if key = ''content'' then Inr (obj\<lparr>Post.content := v\<rparr>)
      else Inl error.ValueError)"

definition setattr_Comment :: "Comment \<Rightarrow> string \<Rightarrow> pyval \<Rightarrow> error + Comment" where
  "setattr_Comment obj key v =
     (if key = ''id'' then Inr (obj\<lparr>Comment.id := v\<rparr>)
      else if key = ''post_id'' then Inr (obj\<lparr>Comment.post_id := v\<rparr>)
      else if key = ''content'' then Inr (obj\<lparr>Comment.content := v\<rparr>)
      else Inl error.ValueError)"

text \<open>
  \<^verbatim>\<open>for key, value in patch_data.items(): setattr(db_post, key, value)\<close>. The
  request body is a JSON object; its items are visited in order, and the loop ends at
  the first assignment that raises.
\<close>

fun patch_Post :: "Post \<Rightarrow> json_object \<Rightarrow> error + Post" where
  "patch_Post db_post [] = Inr db_post"
| "patch_Post db_post ((key, v) # items) =
     (case setattr_Post db_post key v of
        Inl e \<Rightarrow> Inl e
      | Inr db_post \<Rightarrow> patch_Post db_post items)"

fun patch_Comment :: "Comment \<Rightarrow> json_object \<Rightarrow> error + Comment" where
  "patch_Comment db_comment [] = Inr db_comment"
| "patch_Comment db_comment ((key, v) # items) =
     (case setattr_Comment db_comment key v of
        Inl e \<Rightarrow> Inl e
      | Inr db_comment \<Rightarrow> patch_Comment db_comment items)"

section \<open>The handlers for posts\<close>

definition create_post :: "CreatePostModel \<Rightarrow> database \<Rightarrow> Post result" where
  "create_post post db =
     (let post = \<lparr>Post.id = PyNone,
                  Post.title = PyStr (CreatePostModel.title post),
                  Post.content = PyStr (CreatePostModel.content post)\<rparr>;
          (post, db) = insert_Post post db
      in (Inr post, db))"

definition read_posts :: "database \<Rightarrow> Post list result" where
  "read_posts db = (Inr (posts db), db)"

definition read_post :: "int \<Rightarrow> database \<Rightarrow> Post result" where
  "read_post post_id' db =
     (case session_get Post.id (posts db) (PyInt post_id') of
        Inl e \<Rightarrow> (Inl e, db)
      | Inr None \<Rightarrow> (Inl (HTTPException 404 ''Post not found''), db)
      | Inr (Some post) \<Rightarrow> (Inr post, db))"

definition replace_post :: "int \<Rightarrow> CreatePostModel \<Rightarrow> database \<Rightarrow> Post result" where
  "replace_post post_id' post db =
     (case session_get Post.id (posts db) (PyInt post_id') of
        Inl e \<Rightarrow> (Inl e, db)
      | Inr None \<Rightarrow> (Inl (HTTPException 404 ''Post not found''), db)
      | Inr (Some db_post) \<Rightarrow>
          (let db_post = db_post\<lparr>Post.title := PyStr (CreatePostModel.title post)\<rparr>;
               db_post = db_post\<lparr>Post.content := PyStr (CreatePostModel.content post)\<rparr>
           in update_Post (PyInt post_id') [''title'', ''content''] db_post db))"

definition update_post :: "int \<Rightarrow> json_object \<Rightarrow> database \<Rightarrow> Post result" where
  "update_post post_id' patch_data db =
     (case session_get Post.id (posts db) (PyInt post_id') of
        Inl e \<Rightarrow> (Inl e, db)
      | Inr None \<Rightarrow> (Inl (HTTPException 404 ''Post not found''), db)
      | Inr (Some db_post) \<Rightarrow>
          (case patch_Post db_post patch_data of
             Inl e \<Rightarrow> (Inl e, db)
           | Inr db_post \<Rightarrow> update_Post (PyInt post_id') (map fst patch_data) db_post db))"

definition delete_post :: "int \<Rightarrow> database \<Rightarrow> json_object result" where
  "delete_post post_id' db =
     (case session_get Post.id (posts db) (PyInt post_id') of
        Inl e \<Rightarrow> (Inl e, db)
      | Inr None \<Rightarrow> (Inl (HTTPException 404 ''Post not found''), db)
      | Inr (Some post) \<Rightarrow>
          (Inr [(''message'', PyStr ''Post deleted successfully'')], delete_Post post db))"

definition read_post_comments :: "int \<Rightarrow> database \<Rightarrow> Comment list result" where
  "read_post_comments post_id' db =
     (case select_Comment_where_post_id post_id' db of
        Inl e \<Rightarrow> (Inl e, db)
      | Inr comments' \<Rightarrow> (Inr comments', db))"

section \<open>The handlers for comments\<close>

definition create_comment :: "CreateCommentModel \<Rightarrow> database \<Rightarrow> Comment result" where
  "create_comment comment db =
     (let comment = \<lparr>Comment.id = PyNone,
                     Comment.post_id = PyInt (CreateCommentModel.post_id comment),
                     Comment.content = PyStr (CreateCommentModel.content comment)\<rparr>
      in insert_Comment comment db)"

definition read_comments :: "database \<Rightarrow> Comment list result" where
  "read_comments db = (Inr (comments db), db)"

definition read_comment :: "int \<Rightarrow> database \<Rightarrow> Comment result" where
  "read_comment comment_id db =
     (case session_get Comment.id (comments db) (PyInt comment_id) of
        Inl e \<Rightarrow> (Inl e, db)
      | Inr None \<Rightarrow> (Inl (HTTPException 404 ''Comment not found''), db)
      | Inr (Some comment) \<Rightarrow> (Inr comment, db))"

definition replace_comment :: "int \<Rightarrow> CreateCommentModel \<Rightarrow> database \<Rightarrow> Comment result" where
  "replace_comment comment_id comment db =
     (case session_get Comment.id (comments db) (PyInt comment_id) of
        Inl e \<Rightarrow> (Inl e, db)
      | Inr None \<Rightarrow> (Inl (HTTPException 404 ''Comment not found''), db)
      | Inr (Some db_comment) \<Rightarrow>
          (let db_comment =
                 db_comment\<lparr>Comment.post_id := PyInt (CreateCommentModel.post_id comment)\<rparr>;
               db_comment =
                 db_comment\<lparr>Comment.content := PyStr (CreateCommentModel.content comment)\<rparr>
           in update_Comment (PyInt comment_id) [''post_id'', ''content''] db_comment db))"

definition update_comment :: "int \<Rightarrow> json_object \<Rightarrow> database \<Rightarrow> Comment result" where
  "update_comment comment_id patch_data db =
     (case session_get Comment.id (comments db) (PyInt comment_id) of
        Inl e \<Rightarrow> (Inl e, db)
      | Inr None \<Rightarrow> (Inl (HTTPException 404 ''Comment not found''), db)
      | Inr (Some db_comment) \<Rightarrow>
          (case patch_Comment db_comment patch_data of
             Inl e \<Rightarrow> (Inl e, db)
           | Inr db_comment \<Rightarrow>
               update_Comment (PyInt comment_id) (map fst patch_data) db_comment db))"

definition delete_comment :: "int \<Rightarrow> database \<Rightarrow> json_object result" where
  "delete_comment comment_id db =
     (case session_get Comment.id (comments db) (PyInt comment_id) of
        Inl e \<Rightarrow> (Inl e, db)
      | Inr None \<Rightarrow> (Inl (HTTPException 404 ''Comment not found''), db)
      | Inr (Some comment) \<Rightarrow>
          (Inr [(''message'', PyStr ''Comment deleted successfully'')],
           delete_Comment comment db))"

definition read_comment_post :: "int \<Rightarrow> database \<Rightarrow> Post result" where
  "read_comment_post comment_id db =
     (case session_get Comment.id (comments db) (PyInt comment_id) of
        Inl e \<Rightarrow> (Inl e, db)
      | Inr None \<Rightarrow> (Inl (HTTPException 404 ''Comment not found''), db)
      | Inr (Some comment) \<Rightarrow>
          (case session_get Post.id (posts db) (Comment.post_id comment) of
             Inl e \<Rightarrow> (Inl e, db)
           | Inr None \<Rightarrow> (Inl (HTTPException 404 ''Post not found''), db)
           | Inr (Some post) \<Rightarrow> (Inr post, db)))"

section \<open>Response models\<close>

text \<open>
  A route declared with \<^verbatim>\<open>response_model=M\<close> answers with the fields of \<open>M\<close>, read
  from the object the handler returned; an exception passes through unchanged.
\<close>

definition response_model_Post :: "Post \<Rightarrow> json_object" where
  "response_model_Post post =
     [(''id'', Post.id post), (''title'', Post.title post), (''content'', Post.content post)]"



definition get_posts_id :: "int \<Rightarrow> database \<Rightarrow> json_object result" where
  "get_posts_id post_id' db =
     (case read_post post_id' db of
        (r, db) \<Rightarrow> (map_sum (\<lambda>e. e) response_model_Post r, db))"

section \<open>The process entry point\<close>

text \<open>
  \<open>environ\<close> is the process environment. \<^verbatim>\<open>getenv(key, default)\<close> gives the
  variable's string, or the default as it is.
\<close>

definition getenv :: "(string \<rightharpoonup> string) \<Rightarrow> string \<Rightarrow> pyval \<Rightarrow> pyval" where
  "getenv environ key dflt =
     (case environ key of None \<Rightarrow> dflt | Some s \<Rightarrow> PyStr s)"

datatype pyexn = ValueError | TypeError

text \<open>
  \<^verbatim>\<open>int(port)\<close>: an int is returned as it is; a string is parsed. Python's parser of
  integer literals is a built-in, so it is the parameter \<open>int_of_str\<close>, with None for
  the strings it rejects with ValueError.
\<close>

definition py_int :: "(string \<Rightarrow> int option) \<Rightarrow> pyval \<Rightarrow> pyexn + int" where
  "py_int int_of_str v =
     (case v of
        PyInt n \<Rightarrow> Inr n
      | PyBool b \<Rightarrow> Inr (if b then 1 else 0)
      | PyStr s \<Rightarrow> (case int_of_str s of None \<Rightarrow> Inl ValueError | Some n \<Rightarrow> Inr n)
      | _ \<Rightarrow> Inl TypeError)"

text \<open>\<^verbatim>\<open>uvicorn.run(app, host=..., port=...)\<close>: the listener that is started.\<close>

datatype listener = uvicorn_run string int

text \<open>
  The values of the local variables \<open>host\<close> and \<open>port\<close> when the listener is about
  to be started: \<open>port\<close> after the \<^verbatim>\<open>try: ... except ValueError:\<close> block.
\<close>

definition main_locals ::
  "(string \<Rightarrow> int option) \<Rightarrow> (string \<rightharpoonup> string) \<Rightarrow> pyexn + pyval \<times> int" where
  "main_locals int_of_str environ =
     (let host = getenv environ ''HOST'' (PyStr ''127.0.0.1'');
          port = getenv environ ''PORT'' (PyInt 8000)
      in case py_int int_of_str port of
           Inl ValueError \<Rightarrow> Inr (host, 8000)
         | Inl e \<Rightarrow> Inl e
         | Inr port \<Rightarrow> Inr (host, port))"

text \<open>The block under \<^verbatim>\<open>if __name__ == "__main__":\<close>.\<close>

definition main :: "(string \<Rightarrow> int option) \<Rightarrow> (string \<rightharpoonup> string) \<Rightarrow> pyexn + listener" where
  "main int_of_str environ =
     (case main_locals int_of_str environ of
        Inl e \<Rightarrow> Inl e
      | Inr (host, port) \<Rightarrow> Inr (uvicorn_run ''127.0.0.1'' 8000))"

section \<open>What a sequence of assignments leaves behind\<close>




section \<open>A stored state for examples\<close>

text \<open>Two posts, and one comment on each of them.\<close>

definition example_db :: database where
  "example_db =
     \<lparr>posts = [\<lparr>Post.id = PyInt 1, Post.title = PyStr ''first'', Post.content = PyStr ''one''\<rparr>,
               \<lparr>Post.id = PyInt 2, Post.title = PyStr ''second'', Post.content = PyStr ''two''\<rparr>],
      comments = [\<lparr>Comment.id = PyInt 1, Comment.post_id = PyInt 1, Comment.content = PyStr ''a''\<rparr>,
                  \<lparr>Comment.id = PyInt 2, Comment.post_id = PyInt 2, Comment.content = PyStr ''b''\<rparr>]\<rparr>"

section \<open>Facts about the storage layer\<close>

lemma session_get_found:
  "session_get pk rows key = Inr (Some r) \<Longrightarrow> r \<in> set rows \<and> pk r = key"
  unfolding session_get_def
  by (auto simp: find_Some_iff split: option.splits if_splits)

lemma session_get_absent:
  "key \<notin> set (map pk rows) \<Longrightarrow>
   session_get pk rows key = (if overflows key then Inl OverflowError else Inr None)"
proof -
  assume "key \<notin> set (map pk rows)"
  then have "find (\<lambda>r. pk r = key) rows = None"
    by (auto simp: find_None_iff)
  then show ?thesis by (simp add: session_get_def)
qed

lemma session_get_present:
  "key \<in> set (map pk rows) \<Longrightarrow> \<exists>r. session_get pk rows key = Inr (Some r)"
proof -
  assume "key \<in> set (map pk rows)"
  then have "find (\<lambda>r. pk r = key) rows \<noteq> None"
    by (auto simp: find_None_iff)
  then show ?thesis by (auto simp: session_get_def)
qed

lemma session_get_in_range:
  "session_get pk rows (PyInt k) = Inr None \<Longrightarrow> int64 k"
  by (simp add: session_get_def overflows_def split: option.splits if_splits)

lemma max_id_ge: "r \<in> set rows \<Longrightarrow> pk r = PyInt n \<Longrightarrow> n \<le> max_id pk rows"
  by (induction rows) (auto split: pyval.splits)

lemma new_id_fresh: "PyInt (new_id pk rows) \<notin> set (map pk rows)"
proof
  assume "PyInt (new_id pk rows) \<in> set (map pk rows)"
  then obtain r where "r \<in> set rows" "pk r = PyInt (new_id pk rows)" by auto
  then have "new_id pk rows \<le> max_id pk rows" by (rule max_id_ge)
  then show False by (simp add: new_id_def)
qed

lemma find_append_one:
  "find P (rows @ [r]) =
     (case find P rows of Some x \<Rightarrow> Some x | None \<Rightarrow> if P r then Some r else None)"
  by (induction rows) auto


lemma session_get_append_other:
  "pk r \<noteq> key \<Longrightarrow> session_get pk (rows @ [r]) key = session_get pk rows key"
  by (simp add: session_get_def find_append_one split: option.splits)



lemma session_get_delete_rows_same:
  "session_get pk (delete_rows pk key rows) key =
     (if overflows key then Inl OverflowError else Inr None)"
  by (rule session_get_absent) (auto simp: delete_rows_def)

lemma session_get_delete_rows_other:
  "key' \<noteq> key \<Longrightarrow>
   session_get pk (delete_rows pk key rows) key' = session_get pk rows key'"
proof -
  assume "key' \<noteq> key"
  then have "find (\<lambda>r. pk r = key') (delete_rows pk key rows) = find (\<lambda>r. pk r = key') rows"
    unfolding delete_rows_def by (induction rows) auto
  then show ?thesis by (simp add: session_get_def)
qed

lemma overflows_PyInt: "overflows (PyInt n) = (\<not> int64 n)"
  by (simp add: overflows_def)




section \<open>Facts about attribute assignment\<close>










section \<open>The primary key stays unique\<close>

text \<open>
  No handler stores two rows under one id: a new row gets an id above every integer id
  in its table, a row is only removed as a whole, and a write that would move a row
  onto the id of another row is refused.
\<close>

lemma distinct_insert:
  "distinct (map pk rows) \<Longrightarrow> pk r = PyInt (new_id pk rows) \<Longrightarrow>
   distinct (map pk (rows @ [r]))"
  using new_id_fresh [of pk rows] by simp

lemma update_rows_absent:
  "key \<notin> set (map pk rows) \<Longrightarrow> update_rows pk key obj rows = rows"
  unfolding update_rows_def by (induction rows) auto

lemma set_update_rows:
  "set (map pk (update_rows pk key obj rows)) \<subseteq> insert (pk obj) (set (map pk rows))"
  unfolding update_rows_def by (induction rows) auto

lemma distinct_update_rows:
  "distinct (map pk rows) \<Longrightarrow> \<not> pk_conflict pk key obj rows \<Longrightarrow>
   distinct (map pk (update_rows pk key obj rows))"
proof (induction rows)
  case Nil
  then show ?case by (simp add: update_rows_def)
next
  case (Cons a rows)
  show ?case
  proof (cases "pk a = key")
    case True
    with Cons.prems have absent: "key \<notin> set (map pk rows)" by auto
    then have same: "update_rows pk key obj rows = rows"
      by (rule update_rows_absent)
    from Cons.prems True absent have "pk obj \<notin> set (map pk rows)"
      by (auto simp: pk_conflict_def)
    with Cons.prems True same show ?thesis
      by (simp add: update_rows_def)
  next
    case False
    from Cons.prems have "\<not> pk_conflict pk key obj rows"
      by (auto simp: pk_conflict_def)
    with Cons have tail: "distinct (map pk (update_rows pk key obj rows))" by simp
    from Cons.prems False have "pk a \<noteq> pk obj"
      by (auto simp: pk_conflict_def)
    with Cons.prems set_update_rows [of pk key obj rows]
    have "pk a \<notin> set (map pk (update_rows pk key obj rows))" by auto
    with tail False show ?thesis
      by (simp add: update_rows_def)
  qed
qed

lemma distinct_delete_rows:
  "distinct (map pk rows) \<Longrightarrow> distinct (map pk (delete_rows pk key rows))"
  unfolding delete_rows_def by (simp add: distinct_map_filter)

lemma update_Post_distinct:
  "distinct (map Post.id (posts db)) \<Longrightarrow>
   distinct (map Post.id (posts (snd (update_Post key changed obj db))))"
  by (simp add: update_Post_def distinct_update_rows split: sum.splits)

lemma update_Comment_distinct:
  "distinct (map Comment.id (comments db)) \<Longrightarrow>
   distinct (map Comment.id (comments (snd (update_Comment key changed obj db))))"
  by (simp add: update_Comment_def distinct_update_rows split: sum.splits)

lemma create_post_distinct:
  "distinct (map Post.id (posts db)) \<Longrightarrow>
   distinct (map Post.id (posts (snd (create_post body db))))"
  using new_id_fresh [of Post.id "posts db"]
  by (simp add: create_post_def insert_Post_def Let_def del: set_map)

lemma replace_post_distinct:
  "distinct (map Post.id (posts db)) \<Longrightarrow>
   distinct (map Post.id (posts (snd (replace_post k body db))))"
  by (simp add: replace_post_def Let_def update_Post_distinct split: option.splits sum.splits)

lemma update_post_distinct:
  "distinct (map Post.id (posts db)) \<Longrightarrow>
   distinct (map Post.id (posts (snd (update_post k patch_data db))))"
  by (simp add: update_post_def update_Post_distinct split: option.splits sum.splits)

lemma delete_post_distinct:
  "distinct (map Post.id (posts db)) \<Longrightarrow>
   distinct (map Post.id (posts (snd (delete_post k db))))"
  by (simp add: delete_post_def delete_Post_def distinct_delete_rows
      split: option.splits sum.splits)

lemma create_comment_distinct:
  "distinct (map Comment.id (comments db)) \<Longrightarrow>
   distinct (map Comment.id (comments (snd (create_comment body db))))"
  using new_id_fresh [of Comment.id "comments db"]
  by (simp add: create_comment_def insert_Comment_def Let_def del: set_map split: sum.splits)

lemma replace_comment_distinct:
  "distinct (map Comment.id (comments db)) \<Longrightarrow>
   distinct (map Comment.id (comments (snd (replace_comment k body db))))"
  by (simp add: replace_comment_def Let_def update_Comment_distinct
      split: option.splits sum.splits)

lemma update_comment_distinct:
  "distinct (map Comment.id (comments db)) \<Longrightarrow>
   distinct (map Comment.id (comments (snd (update_comment k patch_data db))))"
  by (simp add: update_comment_def update_Comment_distinct split: option.splits sum.splits)

lemma delete_comment_distinct:
  "distinct (map Comment.id (comments db)) \<Longrightarrow>
   distinct (map Comment.id (comments (snd (delete_comment k db))))"
  by (simp add: delete_comment_def delete_Comment_def distinct_delete_rows
      split: option.splits sum.splits)

section \<open>Creating a post\<close>



section \<open>The entry point\<close>

text \<open>
  What the entry point computes: the host from HOST, else 127.0.0.1; the port from
  PORT, else 8000, also when PORT is no integer literal. It never raises.
\<close>

lemma main_locals_fallback:
  "main_locals int_of_str environ =
     Inr (case environ ''HOST'' of None \<Rightarrow> PyStr ''127.0.0.1'' | Some h \<Rightarrow> PyStr h,
          case environ ''PORT'' of
            None \<Rightarrow> 8000
          | Some s \<Rightarrow> (case int_of_str s of None \<Rightarrow> 8000 | Some n \<Rightarrow> n))"
  by (simp add: main_locals_def getenv_def py_int_def Let_def split: option.splits)

text \<open>What it starts the listener with: the constants, whatever the environment holds.\<close>

lemma main_binds_constants:
  "main int_of_str environ = Inr (uvicorn_run ''127.0.0.1'' 8000)"
  by (simp add: main_def main_locals_def getenv_def py_int_def Let_def
      split: option.splits sum.splits pyexn.splits prod.splits)

text \<open>
  C2. With HOST=0.0.0.0 and PORT=9000 in the environment (and \<open>int("9000") = 9000\<close>),
  the entry point computes the host 0.0.0.0 and the port 9000, and starts the listener
  on 127.0.0.1 and 8000: the values read from the environment are not the ones passed
  to the listener.
\<close>

theorem main_ignores_environment:
  "main_locals (\<lambda>s. if s = ''9000'' then Some 9000 else None)
       [''HOST'' \<mapsto> ''0.0.0.0'', ''PORT'' \<mapsto> ''9000''] = Inr (PyStr ''0.0.0.0'', 9000) \<and>
   main (\<lambda>s. if s = ''9000'' then Some 9000 else None)
       [''HOST'' \<mapsto> ''0.0.0.0'', ''PORT'' \<mapsto> ''9000''] =
     Inr (uvicorn_run ''127.0.0.1'' 8000)"
  by (simp add: main_def main_locals_def getenv_def py_int_def Let_def)

section \<open>Deleting a post and the comments\<close>

text \<open>
  C4. Deleting a Post does not touch the comments: whatever the id and the stored
  state, the comment table after \<open>delete_post\<close> is the one before it, so listing all
  comments, fetching a comment by id and listing the comments of any post (the deleted
  one included) answer as they did before.
\<close>

theorem delete_post_keeps_comments:
  "comments (snd (delete_post p db)) = comments db \<and>
   fst (read_comments (snd (delete_post p db))) = Inr (comments db) \<and>
   fst (read_comment c (snd (delete_post p db))) = fst (read_comment c db) \<and>
   fst (read_post_comments q (snd (delete_post p db))) = fst (read_post_comments q db)"
  by (simp add: delete_post_def delete_Post_def read_comments_def read_comment_def
        read_post_comments_def select_Comment_where_post_id_def
      split: option.splits sum.splits)

text \<open>
  An instance: post 1 has one comment; the delete succeeds, the comment stays in the
  table and is still listed under post 1.
\<close>

theorem delete_post_keeps_comments_witness:
  "delete_post 1
     \<lparr>posts = [\<lparr>Post.id = PyInt 1, Post.title = PyStr ''T'', Post.content = PyStr ''C''\<rparr>],
      comments = [\<lparr>Comment.id = PyInt 1, Comment.post_id = PyInt 1,
                   Comment.content = PyStr ''first''\<rparr>]\<rparr> =
     (Inr [(''message'', PyStr ''Post deleted successfully'')],
      \<lparr>posts = [],
       comments = [\<lparr>Comment.id = PyInt 1, Comment.post_id = PyInt 1,
                    Comment.content = PyStr ''first''\<rparr>]\<rparr>) \<and>
   fst (read_post_comments 1 (snd (delete_post 1
     \<lparr>posts = [\<lparr>Post.id = PyInt 1, Post.title = PyStr ''T'', Post.content = PyStr ''C''\<rparr>],
      comments = [\<lparr>Comment.id = PyInt 1, Comment.post_id = PyInt 1,
                   Comment.content = PyStr ''first''\<rparr>]\<rparr>))) =
     Inr [\<lparr>Comment.id = PyInt 1, Comment.post_id = PyInt 1, Comment.content = PyStr ''first''\<rparr>]"
  using delete_post_keeps_comments [of 1
     "\<lparr>posts = [\<lparr>Post.id = PyInt 1, Post.title = PyStr ''T'', Post.content = PyStr ''C''\<rparr>],
      comments = [\<lparr>Comment.id = PyInt 1, Comment.post_id = PyInt 1,
                   Comment.content = PyStr ''first''\<rparr>]\<rparr>" 1 1]
  by (simp add: delete_post_def delete_Post_def delete_rows_def session_get_def
        read_post_comments_def select_Comment_where_post_id_def int64_def)

section \<open>Create, then get\<close>


section \<open>Listing the comments of a post\<close>

lemma count_list_filter:
  "count_list (filter P xs) x = (if P x then count_list xs x else 0)"
  by (induction xs) auto

text \<open>
  C8. As stated, the claim says that listing the comments of a post never errors. The
  path parameter is an integer of any size and is handed to the query as it is: for the
  id \<open>2^63\<close> the driver raises OverflowError and the request fails.
\<close>

theorem read_post_comments_beyond_64_bits:
  "read_post_comments 9223372036854775808 example_db = (Inl OverflowError, example_db)"
  by (simp add: read_post_comments_def select_Comment_where_post_id_def int64_def)

text \<open>
  C8, amended. For every post id \<open>p\<close> within 64 bits and every stored state, listing
  the comments of \<open>p\<close> returns (it does not raise, and leaves the state as it is)
  exactly the comments whose \<open>post_id\<close> is \<open>p\<close>: the same members, each as often
  as it is stored; the empty list when there is none; and the same list whatever the
  post table holds, so also when no Post has the id \<open>p\<close>: it never fails with NotFound.
  For a post id beyond 64 bits the request fails with OverflowError and the state is
  as it was.
\<close>

theorem read_post_comments_exact:
  "(int64 p \<longrightarrow>
      (\<exists>cs. read_post_comments p db = (Inr cs, db) \<and>
         set cs = {c \<in> set (comments db). Comment.post_id c = PyInt p} \<and>
         (\<forall>c. count_list cs c =
            (if Comment.post_id c = PyInt p then count_list (comments db) c else 0)) \<and>
         (PyInt p \<notin> set (map Comment.post_id (comments db)) \<longrightarrow> cs = []) \<and>
         fst (read_post_comments p (db\<lparr>posts := ps\<rparr>)) = Inr cs)) \<and>
   (\<not> int64 p \<longrightarrow> read_post_comments p db = (Inl OverflowError, db))"
proof (intro conjI impI)
  assume range: "int64 p"
  let ?cs = "filter (\<lambda>c. Comment.post_id c = PyInt p) (comments db)"
  have run: "read_post_comments p db = (Inr ?cs, db)"
    using range by (simp add: read_post_comments_def select_Comment_where_post_id_def)
  have members: "set ?cs = {c \<in> set (comments db). Comment.post_id c = PyInt p}"
    by simp
  have counts: "\<forall>c. count_list ?cs c =
      (if Comment.post_id c = PyInt p then count_list (comments db) c else 0)"
    by (simp add: count_list_filter)
  have none: "PyInt p \<notin> set (map Comment.post_id (comments db)) \<longrightarrow> ?cs = []"
    by (force simp: filter_empty_conv)
  have no_post: "fst (read_post_comments p (db\<lparr>posts := ps\<rparr>)) = Inr ?cs"
    using range by (simp add: read_post_comments_def select_Comment_where_post_id_def)
  show "\<exists>cs. read_post_comments p db = (Inr cs, db) \<and>
         set cs = {c \<in> set (comments db). Comment.post_id c = PyInt p} \<and>
         (\<forall>c. count_list cs c =
            (if Comment.post_id c = PyInt p then count_list (comments db) c else 0)) \<and>
         (PyInt p \<notin> set (map Comment.post_id (comments db)) \<longrightarrow> cs = []) \<and>
         fst (read_post_comments p (db\<lparr>posts := ps\<rparr>)) = Inr cs"
    by (intro exI [of _ ?cs] conjI) (rule run members counts none no_post)+
next
  assume "\<not> int64 p"
  then show "read_post_comments p db = (Inl OverflowError, db)"
    by (simp add: read_post_comments_def select_Comment_where_post_id_def)
qed

text \<open>
  An instance: on the empty store, where no comment (and no post) mentions 7, the list
  for post 7 is empty; with three comments, two of them on post 7, the list holds these
  two in their stored order; the id \<open>-2^63 - 1\<close> is refused.
\<close>

theorem read_post_comments_exact_witness:
  "int64 7 \<and>
   PyInt 7 \<notin> set (map Comment.post_id (comments \<lparr>posts = [], comments = []\<rparr>)) \<and>
   fst (read_post_comments 7 \<lparr>posts = [], comments = []\<rparr>) = Inr [] \<and>
   fst (read_post_comments 7
     \<lparr>posts = [],
      comments = [\<lparr>Comment.id = PyInt 1, Comment.post_id = PyInt 7, Comment.content = PyStr ''a''\<rparr>,
                  \<lparr>Comment.id = PyInt 2, Comment.post_id = PyInt 8, Comment.content = PyStr ''b''\<rparr>,
                  \<lparr>Comment.id = PyInt 3, Comment.post_id = PyInt 7, Comment.content = PyStr ''c''\<rparr>]\<rparr>) =
     Inr [\<lparr>Comment.id = PyInt 1, Comment.post_id = PyInt 7, Comment.content = PyStr ''a''\<rparr>,
          \<lparr>Comment.id = PyInt 3, Comment.post_id = PyInt 7, Comment.content = PyStr ''c''\<rparr>] \<and>
   \<not> int64 (- 9223372036854775809) \<and>
   fst (read_post_comments (- 9223372036854775809) \<lparr>posts = [], comments = []\<rparr>) =
     Inl OverflowError"
  using read_post_comments_exact [of 7 "\<lparr>posts = [], comments = []\<rparr>" "[]"]
        read_post_comments_exact [of "- 9223372036854775809" "\<lparr>posts = [], comments = []\<rparr>" "[]"]
  by (simp add: read_post_comments_def select_Comment_where_post_id_def int64_def)

section \<open>Deleting a post\<close>

lemma delete_rows_distinct:
  "distinct (map pk rows) \<Longrightarrow> find (\<lambda>r. pk r = key) rows = Some r \<Longrightarrow>
   delete_rows pk key rows = remove1 r rows"
  unfolding delete_rows_def
proof (induction rows)
  case Nil
  then show ?case by simp
next
  case (Cons a rows)
  show ?case
  proof (cases "pk a = key")
    case True
    with Cons.prems have "r = a" by simp
    moreover from True Cons.prems have "key \<notin> set (map pk rows)" by auto
    then have "filter (\<lambda>r. pk r \<noteq> key) rows = rows"
      by (auto simp: filter_id_conv)
    ultimately show ?thesis using True by simp
  next
    case False
    with Cons.prems have found: "find (\<lambda>r. pk r = key) rows = Some r" by simp
    then have "pk r = key" by (auto simp: find_Some_iff)
    with False have "r \<noteq> a" by auto
    with False found Cons show ?thesis by simp
  qed
qed

text \<open>
  C7. As stated, the claim says that delete fails with NotFound when no Post has the
  given id. No Post of the example store has the id \<open>2^63\<close>, and delete of that id
  fails with OverflowError, raised by the driver when \<open>session.get\<close> hands it the
  key: the answer is status 500, not 404.
\<close>

theorem delete_post_beyond_64_bits:
  "PyInt 9223372036854775808 \<notin> set (map Post.id (posts example_db)) \<and>
   delete_post 9223372036854775808 example_db = (Inl OverflowError, example_db)"
  by (simp add: example_db_def delete_post_def session_get_def overflows_def int64_def)

text \<open>
  C7, amended. Delete of a Post fails with NotFound (status 404) when the id is within
  64 bits and no stored Post has it, and with OverflowError when the id is beyond 64
  bits and no stored Post has it; in both cases nothing is stored. When a Post has the
  id, delete returns the confirmation message and removes the rows with that id and no
  other row (with distinct ids: exactly the Post that a fetch returned before), leaves
  the comments alone, and a fetch of the id afterwards fails with NotFound.
\<close>

theorem delete_post_removes:
  "(int64 k \<and> PyInt k \<notin> set (map Post.id (posts db)) \<longrightarrow>
      delete_post k db = (Inl (HTTPException 404 ''Post not found''), db)) \<and>
   (\<not> int64 k \<and> PyInt k \<notin> set (map Post.id (posts db)) \<longrightarrow>
      delete_post k db = (Inl OverflowError, db)) \<and>
   (PyInt k \<in> set (map Post.id (posts db)) \<longrightarrow>
      (\<exists>db'. delete_post k db = (Inr [(''message'', PyStr ''Post deleted successfully'')], db') \<and>
         posts db' = filter (\<lambda>r. Post.id r \<noteq> PyInt k) (posts db) \<and>
         PyInt k \<notin> set (map Post.id (posts db')) \<and>
         comments db' = comments db \<and>
         (int64 k \<longrightarrow> read_post k db' = (Inl (HTTPException 404 ''Post not found''), db')) \<and>
         (distinct (map Post.id (posts db)) \<longrightarrow>
            (\<exists>post. read_post k db = (Inr post, db) \<and> posts db' = remove1 post (posts db)))))"
proof (intro conjI impI)
  assume "int64 k \<and> PyInt k \<notin> set (map Post.id (posts db))"
  then have "session_get Post.id (posts db) (PyInt k) = Inr None"
    by (simp add: session_get_absent overflows_PyInt del: set_map)
  then show "delete_post k db = (Inl (HTTPException 404 ''Post not found''), db)"
    by (simp add: delete_post_def)
next
  assume "\<not> int64 k \<and> PyInt k \<notin> set (map Post.id (posts db))"
  then have "session_get Post.id (posts db) (PyInt k) = Inl OverflowError"
    by (simp add: session_get_absent overflows_PyInt del: set_map)
  then show "delete_post k db = (Inl OverflowError, db)"
    by (simp add: delete_post_def)
next
  assume "PyInt k \<in> set (map Post.id (posts db))"
  then have "\<exists>post. session_get Post.id (posts db) (PyInt k) = Inr (Some post)"
    by (rule session_get_present)
  then obtain post where got: "session_get Post.id (posts db) (PyInt k) = Inr (Some post)" ..
  then have key: "Post.id post = PyInt k"
    by (rule session_get_found [THEN conjunct2])
  from got have found: "find (\<lambda>r. Post.id r = PyInt k) (posts db) = Some post"
    by (simp add: session_get_def split: option.splits if_splits)
  let ?db' = "db\<lparr>posts := delete_rows Post.id (PyInt k) (posts db)\<rparr>"
  have run: "delete_post k db = (Inr [(''message'', PyStr ''Post deleted successfully'')], ?db')"
    using got key by (simp add: delete_post_def delete_Post_def)
  have rows: "posts ?db' = filter (\<lambda>r. Post.id r \<noteq> PyInt k) (posts db)"
    by (simp add: delete_rows_def)
  have gone: "PyInt k \<notin> set (map Post.id (posts ?db'))"
    by (auto simp: delete_rows_def)
  have frame: "comments ?db' = comments db"
    by simp
  have after: "int64 k \<longrightarrow> read_post k ?db' = (Inl (HTTPException 404 ''Post not found''), ?db')"
    by (simp add: read_post_def session_get_delete_rows_same overflows_PyInt)
  have one: "distinct (map Post.id (posts db)) \<longrightarrow>
      (\<exists>post. read_post k db = (Inr post, db) \<and> posts ?db' = remove1 post (posts db))"
  proof
    assume "distinct (map Post.id (posts db))"
    then have "delete_rows Post.id (PyInt k) (posts db) = remove1 post (posts db)"
      using found by (rule delete_rows_distinct)
    then have removed: "posts ?db' = remove1 post (posts db)"
      by simp
    from got have "read_post k db = (Inr post, db)"
      by (simp add: read_post_def)
    with removed show "\<exists>post. read_post k db = (Inr post, db) \<and>
        posts ?db' = remove1 post (posts db)"
      by (intro exI [of _ post] conjI)
  qed
  show "\<exists>db'. delete_post k db = (Inr [(''message'', PyStr ''Post deleted successfully'')], db') \<and>
         posts db' = filter (\<lambda>r. Post.id r \<noteq> PyInt k) (posts db) \<and>
         PyInt k \<notin> set (map Post.id (posts db')) \<and>
         comments db' = comments db \<and>
         (int64 k \<longrightarrow> read_post k db' = (Inl (HTTPException 404 ''Post not found''), db')) \<and>
         (distinct (map Post.id (posts db)) \<longrightarrow>
            (\<exists>post. read_post k db = (Inr post, db) \<and> posts db' = remove1 post (posts db)))"
    by (intro exI [of _ ?db'] conjI) (rule run rows gone frame after one)+
qed

text \<open>
  An instance on the example store: id 5 is absent and delete fails with NotFound; the
  id \<open>-2^63 - 1\<close> fails with OverflowError; id 1 is present, delete removes post 1,
  and fetching 1 afterwards fails with NotFound.
\<close>

theorem delete_post_removes_witness:
  "int64 5 \<and> PyInt 5 \<notin> set (map Post.id (posts example_db)) \<and>
   delete_post 5 example_db = (Inl (HTTPException 404 ''Post not found''), example_db) \<and>
   \<not> int64 (- 9223372036854775809) \<and>
   PyInt (- 9223372036854775809) \<notin> set (map Post.id (posts example_db)) \<and>
   delete_post (- 9223372036854775809) example_db = (Inl OverflowError, example_db) \<and>
   int64 1 \<and> PyInt 1 \<in> set (map Post.id (posts example_db)) \<and>
   distinct (map Post.id (posts example_db)) \<and>
   delete_post 1 example_db =
     (Inr [(''message'', PyStr ''Post deleted successfully'')],
      example_db\<lparr>posts :=
        [\<lparr>Post.id = PyInt 2, Post.title = PyStr ''second'', Post.content = PyStr ''two''\<rparr>]\<rparr>) \<and>
   fst (read_post 1 (snd (delete_post 1 example_db))) =
     Inl (HTTPException 404 ''Post not found'')"
  using delete_post_removes [of 5 example_db]
        delete_post_removes [of "- 9223372036854775809" example_db]
        delete_post_removes [of 1 example_db]
  by (simp add: example_db_def delete_post_def delete_Post_def delete_rows_def
        session_get_def overflows_def int64_def read_post_def)

section \<open>Replacing a post\<close>




section \<open>Comments on posts that do not exist\<close>




section \<open>The stored state when a request fails with NotFound\<close>

text \<open>
  C10. Whenever get, replace, patch or delete of a Post or of a Comment, or the fetch
  of a comment's owning post, fails with NotFound (an HTTPException with status 404),
  the stored state after the request is the stored state before it.
\<close>

theorem not_found_leaves_state:
  "(fst (read_post k db) = Inl (HTTPException 404 d) \<longrightarrow> snd (read_post k db) = db) \<and>
   (fst (replace_post k post db) = Inl (HTTPException 404 d) \<longrightarrow>
      snd (replace_post k post db) = db) \<and>
   (fst (update_post k patch_data db) = Inl (HTTPException 404 d) \<longrightarrow>
      snd (update_post k patch_data db) = db) \<and>
   (fst (delete_post k db) = Inl (HTTPException 404 d) \<longrightarrow> snd (delete_post k db) = db) \<and>
   (fst (read_comment k db) = Inl (HTTPException 404 d) \<longrightarrow> snd (read_comment k db) = db) \<and>
   (fst (replace_comment k comment db) = Inl (HTTPException 404 d) \<longrightarrow>
      snd (replace_comment k comment db) = db) \<and>
   (fst (update_comment k patch_data db) = Inl (HTTPException 404 d) \<longrightarrow>
      snd (update_comment k patch_data db) = db) \<and>
   (fst (delete_comment k db) = Inl (HTTPException 404 d) \<longrightarrow>
      snd (delete_comment k db) = db) \<and>
   (fst (read_comment_post k db) = Inl (HTTPException 404 d) \<longrightarrow>
      snd (read_comment_post k db) = db)"
proof (intro conjI)
  show "fst (read_post k db) = Inl (HTTPException 404 d) \<longrightarrow> snd (read_post k db) = db"
    by (simp add: read_post_def split: option.splits sum.splits)
  show "fst (replace_post k post db) = Inl (HTTPException 404 d) \<longrightarrow>
      snd (replace_post k post db) = db"
    by (simp add: replace_post_def update_Post_def Let_def split: if_splits option.splits sum.splits)
  show "fst (update_post k patch_data db) = Inl (HTTPException 404 d) \<longrightarrow>
      snd (update_post k patch_data db) = db"
    by (simp add: update_post_def update_Post_def split: if_splits option.splits sum.splits)
  show "fst (delete_post k db) = Inl (HTTPException 404 d) \<longrightarrow> snd (delete_post k db) = db"
    by (simp add: delete_post_def split: option.splits sum.splits)
  show "fst (read_comment k db) = Inl (HTTPException 404 d) \<longrightarrow> snd (read_comment k db) = db"
    by (simp add: read_comment_def split: option.splits sum.splits)
  show "fst (replace_comment k comment db) = Inl (HTTPException 404 d) \<longrightarrow>
      snd (replace_comment k comment db) = db"
    by (simp add: replace_comment_def update_Comment_def Let_def split: if_splits option.splits sum.splits)
  show "fst (update_comment k patch_data db) = Inl (HTTPException 404 d) \<longrightarrow>
      snd (update_comment k patch_data db) = db"
    by (simp add: update_comment_def update_Comment_def split: if_splits option.splits sum.splits)
  show "fst (delete_comment k db) = Inl (HTTPException 404 d) \<longrightarrow>
      snd (delete_comment k db) = db"
    by (simp add: delete_comment_def split: option.splits sum.splits)
  show "fst (read_comment_post k db) = Inl (HTTPException 404 d) \<longrightarrow>
      snd (read_comment_post k db) = db"
    by (simp add: read_comment_post_def split: option.splits sum.splits)
qed

text \<open>
  An instance on the example store: id 5 is absent from both tables, and each of the
  nine operations fails with NotFound and leaves the store as it was; so does the
  fetch of the owning post of comment 1 once the posts are gone.
\<close>

theorem not_found_leaves_state_witness:
  "read_post 5 example_db = (Inl (HTTPException 404 ''Post not found''), example_db) \<and>
   replace_post 5 \<lparr>CreatePostModel.title = ''T'', CreatePostModel.content = ''C''\<rparr> example_db =
     (Inl (HTTPException 404 ''Post not found''), example_db) \<and>
   update_post 5 [(''title'', PyStr ''New'')] example_db =
     (Inl (HTTPException 404 ''Post not found''), example_db) \<and>
   delete_post 5 example_db = (Inl (HTTPException 404 ''Post not found''), example_db) \<and>
   read_comment 5 example_db = (Inl (HTTPException 404 ''Comment not found''), example_db) \<and>
   replace_comment 5 \<lparr>CreateCommentModel.post_id = 1, CreateCommentModel.content = ''x''\<rparr>
     example_db = (Inl (HTTPException 404 ''Comment not found''), example_db) \<and>
   update_comment 5 [(''content'', PyStr ''New'')] example_db =
     (Inl (HTTPException 404 ''Comment not found''), example_db) \<and>
   delete_comment 5 example_db = (Inl (HTTPException 404 ''Comment not found''), example_db) \<and>
   read_comment_post 5 example_db =
     (Inl (HTTPException 404 ''Comment not found''), example_db) \<and>
   read_comment_post 1 (example_db\<lparr>posts := []\<rparr>) =
     (Inl (HTTPException 404 ''Post not found''), example_db\<lparr>posts := []\<rparr>)"
  using not_found_leaves_state [of 5 example_db "''Post not found''"
          "\<lparr>CreatePostModel.title = ''T'', CreatePostModel.content = ''C''\<rparr>"
          "[(''title'', PyStr ''New'')]"
          "\<lparr>CreateCommentModel.post_id = 1, CreateCommentModel.content = ''x''\<rparr>"]
        not_found_leaves_state [of 5 example_db "''Comment not found''"
          "\<lparr>CreatePostModel.title = ''T'', CreatePostModel.content = ''C''\<rparr>"
          "[(''content'', PyStr ''New'')]"
          "\<lparr>CreateCommentModel.post_id = 1, CreateCommentModel.content = ''x''\<rparr>"]
        not_found_leaves_state [of 1 "example_db\<lparr>posts := []\<rparr>" "''Post not found''"
          "\<lparr>CreatePostModel.title = ''T'', CreatePostModel.content = ''C''\<rparr>"
          "[(''content'', PyStr ''New'')]"
          "\<lparr>CreateCommentModel.post_id = 1, CreateCommentModel.content = ''x''\<rparr>"]
  by (simp add: example_db_def session_get_def overflows_def int64_def read_post_def
        replace_post_def update_post_def delete_post_def read_comment_def
        replace_comment_def update_comment_def delete_comment_def read_comment_post_def)

section \<open>Patching a post\<close>




end
